theory Spec2Isabelle
  imports Main "HOL-Library.Word"
begin

section \<open>Values, errors and the environment of the log\<close>

text \<open>
  Go's \<open>uint64\<close> is a 64-bit word and a \<open>string\<close> is a sequence of bytes. A \<open>[]byte\<close>
  that the code passes around without looking inside it (the log info, the entry) is a
  \<open>bytes option\<close>, \<open>None\<close> being the nil slice. The two slices of an envelope are plain
  byte lists: the code applies only \<open>len\<close>, \<open>bytes.Equal\<close>, \<open>Sum\<close> and \<open>json.Unmarshal\<close>
  to them, and none of these tells a nil slice from an empty one.
\<close>

type_synonym uint64 = "64 word"
type_synonym bytes = "8 word list"

datatype errno = ENOENT | EACCES

text \<open>
  An \<open>error\<close> value of Go; \<open>nil\<close> is \<open>None\<close> of \<open>error option\<close>. \<open>LogNoStateErr\<close> and
  \<open>LogCorruptErr\<close> are the two sentinel errors of the package, \<open>PathError op path errno\<close>
  is what the \<open>os\<close> package returns and \<open>JSONError msg\<close> what \<open>encoding/json\<close> returns.
\<close>

datatype error =
    LogNoStateErr
  | LogCorruptErr
  | PathError string string errno
  | JSONError string

subsection \<open>The file system\<close>

text \<open>
  The files the log touches: a flat map from path to contents, and three sets of paths on
  which the system refuses an operation whether or not a file is there: the paths that
  cannot be opened for reading, those that cannot be opened for writing and those that
  cannot be removed. The empty path names no file. An operation that is refused leaves
  the file system as it was; a write that fails after the file has been opened is not
  modelled.
\<close>

record filesystem =
  files :: "string \<rightharpoonup> bytes"
  unreadable :: "string \<Rightarrow> bool"
  denied :: "string \<Rightarrow> bool"
  unremovable :: "string \<Rightarrow> bool"

definition os_Remove :: "string \<Rightarrow> filesystem \<Rightarrow> error option \<times> filesystem" where
  "os_Remove name fs =
     (if name = [] \<or> files fs name = None
      then (Some (PathError ''remove'' name ENOENT), fs)
      else if unremovable fs name then (Some (PathError ''remove'' name EACCES), fs)
      else (None, fs\<lparr>files := (files fs)(name := None)\<rparr>))"

definition ioutil_ReadFile :: "string \<Rightarrow> filesystem \<Rightarrow> bytes \<times> error option" where
  "ioutil_ReadFile name fs =
     (if name = [] then ([], Some (PathError ''open'' name ENOENT))
      else case files fs name of
             None \<Rightarrow> ([], Some (PathError ''open'' name ENOENT))
           | Some b \<Rightarrow>
               if unreadable fs name then ([], Some (PathError ''open'' name EACCES))
               else (b, None))"

definition ioutil_WriteFile :: "string \<Rightarrow> bytes \<Rightarrow> filesystem \<Rightarrow> error option \<times> filesystem" where
  "ioutil_WriteFile name data fs =
     (if name = [] then (Some (PathError ''open'' name ENOENT), fs)
      else if denied fs name then (Some (PathError ''open'' name EACCES), fs)
      else (None, fs\<lparr>files := (files fs)(name \<mapsto> data)\<rparr>))"

subsection \<open>The digest\<close>

text \<open>
  \<open>sha1.New().Sum(b)\<close>: the \<open>Sum\<close> of a Go hash appends the digest of what was written to
  the hash to its argument. Nothing has been written to a hash that \<open>New\<close> has just made,
  so the result is \<open>b\<close> followed by the SHA-1 digest of the empty input, the twenty
  bytes \<open>da39a3ee 5e6b4b0d 3255bfef 95601890 afd80709\<close>.
\<close>

definition sha1_empty :: bytes where
  "sha1_empty =
     [218, 57, 163, 238, 94, 107, 75, 13, 50, 85,
      191, 239, 149, 96, 24, 144, 175, 216, 7, 9]"

definition sha1_New_Sum :: "bytes \<Rightarrow> bytes" where
  "sha1_New_Sum b = b @ sha1_empty"

definition bytes_Equal :: "bytes \<Rightarrow> bytes \<Rightarrow> bool" where
  "bytes_Equal a b = (a = b)"

section \<open>The default log\<close>

record envelope =
  SHA :: bytes
  Data :: bytes

record persistentState =
  CurrentTerm :: uint64
  VotedFor :: string

text \<open>
  \<open>encoding/json\<close> at the two types the log encodes and decodes, as four functions the
  definitions below take as a parameter. \<open>Inl msg\<close> is the error branch.
\<close>

record json =
  Marshal_ps :: "persistentState \<Rightarrow> string + bytes"
  Marshal_env :: "envelope \<Rightarrow> string + bytes"
  Unmarshal_env :: "bytes \<Rightarrow> string + envelope"
  Unmarshal_ps :: "bytes \<Rightarrow> string + persistentState"

type_synonym latest = "uint64 \<times> string \<times> uint64 \<times> bytes option \<times> error option"

record DefaultLog =
  path :: string

definition NewDefaultLog :: "string \<Rightarrow> DefaultLog" where
  "NewDefaultLog p = \<lparr>path = p\<rparr>"

definition DefaultLog_Close ::
  "DefaultLog \<Rightarrow> filesystem \<Rightarrow> error option \<times> DefaultLog \<times> filesystem" where
  "DefaultLog_Close l fs =
     (case os_Remove (path l) fs of (err, fs') \<Rightarrow> (err, l\<lparr>path := []\<rparr>, fs'))"

definition DefaultLog_LatestEntry :: "json \<Rightarrow> DefaultLog \<Rightarrow> filesystem \<Rightarrow> latest" where
  "DefaultLog_LatestEntry js l fs =
     (case ioutil_ReadFile (path l) fs of
        (buf, Some err) \<Rightarrow> (0, [], 0, None, Some err)
      | (buf, None) \<Rightarrow>
          if length buf \<le> 0 then (0, [], 0, None, Some LogNoStateErr)
          else
            (case Unmarshal_env js buf of
               Inl e \<Rightarrow> (0, [], 0, None, Some (JSONError e))
             | Inr env \<Rightarrow>
                 let sha = sha1_New_Sum (Data env) in
                 if \<not> bytes_Equal sha (SHA env) then (0, [], 0, None, Some LogCorruptErr)
                 else
                   (case Unmarshal_ps js (Data env) of
                      Inl e \<Rightarrow> (0, [], 0, None, Some (JSONError e))
                    | Inr ps \<Rightarrow> (CurrentTerm ps, VotedFor ps, 0, None, None))))"

definition DefaultLog_AppendEntry ::
  "json \<Rightarrow> DefaultLog \<Rightarrow> uint64 \<Rightarrow> string \<Rightarrow> uint64 \<Rightarrow> bytes option \<Rightarrow> filesystem
     \<Rightarrow> error option \<times> filesystem" where
  "DefaultLog_AppendEntry js l term votedFor index entry fs =
     (let ps = \<lparr>CurrentTerm = term, VotedFor = votedFor\<rparr>;
          logPath = path l
      in case Marshal_ps js ps of
           Inl e \<Rightarrow> (Some (JSONError e), fs)
         | Inr buf \<Rightarrow>
             let env = \<lparr>SHA = sha1_New_Sum buf, Data = buf\<rparr>
             in (case Marshal_env js env of
                   Inl e \<Rightarrow> (Some (JSONError e), fs)
                 | Inr toWrite \<Rightarrow> ioutil_WriteFile logPath toWrite fs))"

definition DefaultLog_LogUpToDate ::
  "DefaultLog \<Rightarrow> uint64 \<Rightarrow> bytes option \<Rightarrow> uint64 \<Rightarrow> bytes option \<Rightarrow> bool" where
  "DefaultLog_LogUpToDate l index info candidateIndex candidateInfo = True"

section \<open>The history-aware test log\<close>

text \<open>
  \<open>TestLog\<close> of the tests. Its mutex and its \<open>testing.T\<close> are left out: no method reads
  or writes them.
\<close>

record TestLog =
  Term :: uint64
  VotedFor :: string
  LastIndex :: uint64
  LastEntry :: "bytes option"
  Closed :: bool

definition NewTestLog :: "uint64 \<Rightarrow> bytes option \<Rightarrow> TestLog" where
  "NewTestLog lastIndex lastEntry =
     \<lparr>Term = 0, VotedFor = [], LastIndex = lastIndex, LastEntry = lastEntry, Closed = False\<rparr>"

definition TestLog_Close :: "TestLog \<Rightarrow> error option \<times> TestLog" where
  "TestLog_Close l = (None, l\<lparr>Closed := True\<rparr>)"

definition TestLog_LatestEntry :: "TestLog \<Rightarrow> latest" where
  "TestLog_LatestEntry l = (Term l, VotedFor l, LastIndex l, LastEntry l, None)"

definition TestLog_AppendEntry ::
  "TestLog \<Rightarrow> uint64 \<Rightarrow> string \<Rightarrow> uint64 \<Rightarrow> bytes option \<Rightarrow> error option \<times> TestLog" where
  "TestLog_AppendEntry l term votedFor index entry =
     (None, l\<lparr>Term := term, VotedFor := votedFor\<rparr>)"

text \<open>The line the method prints before it compares is not modelled.\<close>

definition TestLog_LogUpToDate ::
  "TestLog \<Rightarrow> uint64 \<Rightarrow> bytes option \<Rightarrow> uint64 \<Rightarrow> bytes option \<Rightarrow> bool" where
  "TestLog_LogUpToDate l index info candidateIndex candidateInfo =
     (if index = candidateIndex then True else index < candidateIndex)"

section \<open>The node and its log\<close>

text \<open>
  The interface \<open>Log\<close>: a table of the four methods. The receiver, and whatever else a
  method reads or writes (the file system, for the default log), is the state \<open>'w\<close> that
  every method takes; the methods that can write return the state they leave.
\<close>

record 'w Log =
  LatestEntry :: "'w \<Rightarrow> latest \<times> 'w"
  LogUpToDate :: "uint64 \<Rightarrow> bytes option \<Rightarrow> uint64 \<Rightarrow> bytes option \<Rightarrow> 'w \<Rightarrow> bool"
  AppendEntry :: "uint64 \<Rightarrow> string \<Rightarrow> uint64 \<Rightarrow> bytes option \<Rightarrow> 'w \<Rightarrow> error option \<times> 'w"
  Close :: "'w \<Rightarrow> error option \<times> 'w"

definition DefaultLog_Log :: "json \<Rightarrow> (DefaultLog \<times> filesystem) Log" where
  "DefaultLog_Log js =
     \<lparr>LatestEntry = (\<lambda>(l, fs). (DefaultLog_LatestEntry js l fs, (l, fs))),
      LogUpToDate = (\<lambda>index info candidateIndex candidateInfo (l, fs).
                       DefaultLog_LogUpToDate l index info candidateIndex candidateInfo),
      AppendEntry = (\<lambda>term votedFor index entry (l, fs).
                       case DefaultLog_AppendEntry js l term votedFor index entry fs of
                         (err, fs') \<Rightarrow> (err, (l, fs'))),
      Close = (\<lambda>(l, fs). case DefaultLog_Close l fs of (err, l', fs') \<Rightarrow> (err, (l', fs')))\<rparr>"

definition TestLog_Log :: "TestLog Log" where
  "TestLog_Log =
     \<lparr>LatestEntry = (\<lambda>l. (TestLog_LatestEntry l, l)),
      LogUpToDate = (\<lambda>index info candidateIndex candidateInfo l.
                       TestLog_LogUpToDate l index info candidateIndex candidateInfo),
      AppendEntry = (\<lambda>term votedFor index entry l.
                       TestLog_AppendEntry l term votedFor index entry),
      Close = TestLog_Close\<rparr>"

text \<open>The fields of the node that the functions of the log file read and write.\<close>

record 'w Node =
  log :: "'w Log"
  logPath :: string
  "term" :: uint64
  vote :: string
  lastIndex :: uint64
  logInfo :: "bytes option"

text \<open>
  Modelled from the spec: the four setters that \<open>readState\<close> calls, \<open>setTerm\<close>,
  \<open>setVote\<close>, \<open>SetLastIndex\<close> and \<open>SetLogInfo\<close>, are not among the source files. Each
  stores its argument in the field of the node it is named after (the fields \<open>term\<close>,
  \<open>vote\<close>, \<open>lastIndex\<close> and \<open>lastInfo\<close> of the node in the data model).
\<close>

definition setTerm :: "uint64 \<Rightarrow> 'w Node \<Rightarrow> 'w Node" where
  "setTerm t n = n\<lparr>term := t\<rparr>"

definition setVote :: "string \<Rightarrow> 'w Node \<Rightarrow> 'w Node" where
  "setVote v n = n\<lparr>vote := v\<rparr>"

definition SetLastIndex :: "uint64 \<Rightarrow> 'w Node \<Rightarrow> 'w Node" where
  "SetLastIndex i n = n\<lparr>lastIndex := i\<rparr>"

definition SetLogInfo :: "bytes option \<Rightarrow> 'w Node \<Rightarrow> 'w Node" where
  "SetLogInfo info n = n\<lparr>logInfo := info\<rparr>"

definition closeLog :: "'w Node \<Rightarrow> 'w \<Rightarrow> error option \<times> 'w Node \<times> 'w" where
  "closeLog n w = (case Close (log n) w of (err, w') \<Rightarrow> (err, n\<lparr>logPath := []\<rparr>, w'))"

definition writeState :: "'w Node \<Rightarrow> 'w \<Rightarrow> error option \<times> 'w" where
  "writeState n w = AppendEntry (log n) (term n) (vote n) 0 None w"

definition readState :: "'w Node \<Rightarrow> 'w \<Rightarrow> error option \<times> 'w Node \<times> 'w" where
  "readState n w =
     (case LatestEntry (log n) w of
        ((currentTerm, lastVoted, lastIndex', logInfo', err), w') \<Rightarrow>
          if err \<noteq> None \<and> err \<noteq> Some LogNoStateErr then (err, n, w')
          else (None,
                SetLogInfo logInfo'
                  (SetLastIndex lastIndex' (setVote lastVoted (setTerm currentTerm n))),
                w'))"

section \<open>A codec to run the default log on\<close>

text \<open>
  A small binary codec that stands in for the JSON encoding where a theorem is applied to
  a concrete input: the term as eight bytes, the most significant first, followed by the
  bytes of the vote; an envelope as the length of its digest in eight bytes, the digest,
  and the payload.
\<close>

definition u64_bytes :: "uint64 \<Rightarrow> bytes" where
  "u64_bytes t = map (\<lambda>i. of_nat (unat t div 256 ^ i mod 256)) [7, 6, 5, 4, 3, 2, 1, 0]"

definition bytes_u64 :: "bytes \<Rightarrow> uint64" where
  "bytes_u64 bs = of_nat (foldl (\<lambda>a b. a * 256 + unat b) 0 bs)"

definition sample_Marshal_ps :: "persistentState \<Rightarrow> string + bytes" where
  "sample_Marshal_ps ps =
     Inr (u64_bytes (CurrentTerm ps) @ map (\<lambda>c. of_nat (of_char c)) (persistentState.VotedFor ps))"

definition sample_Unmarshal_ps :: "bytes \<Rightarrow> string + persistentState" where
  "sample_Unmarshal_ps b =
     (if length b < 8 then Inl ''unexpected end of input''
      else Inr \<lparr>CurrentTerm = bytes_u64 (take 8 b),
                persistentState.VotedFor = map (\<lambda>x. char_of (unat x)) (drop 8 b)\<rparr>)"

definition sample_Marshal_env :: "envelope \<Rightarrow> string + bytes" where
  "sample_Marshal_env e = Inr (u64_bytes (of_nat (length (SHA e))) @ SHA e @ Data e)"

definition sample_Unmarshal_env :: "bytes \<Rightarrow> string + envelope" where
  "sample_Unmarshal_env b =
     (if length b < 8 then Inl ''unexpected end of input''
      else let n = unat (bytes_u64 (take 8 b)); r = drop 8 b
           in if length r < n then Inl ''unexpected end of input''
              else Inr \<lparr>SHA = take n r, Data = drop n r\<rparr>)"

definition sample_json :: json where
  "sample_json =
     \<lparr>Marshal_ps = sample_Marshal_ps, Marshal_env = sample_Marshal_env,
      Unmarshal_env = sample_Unmarshal_env, Unmarshal_ps = sample_Unmarshal_ps\<rparr>"

text \<open>
  Three file systems: one with no file and one with a single file, where nothing is
  refused, and one with a single file that can be neither read nor removed.
\<close>

definition empty_fs :: filesystem where
  "empty_fs =
     \<lparr>files = Map.empty, unreadable = (\<lambda>q. False), denied = (\<lambda>q. False),
      unremovable = (\<lambda>q. False)\<rparr>"

definition file_fs :: "string \<Rightarrow> bytes \<Rightarrow> filesystem" where
  "file_fs p b =
     \<lparr>files = [p \<mapsto> b], unreadable = (\<lambda>q. False), denied = (\<lambda>q. False),
      unremovable = (\<lambda>q. False)\<rparr>"

definition locked_fs :: "string \<Rightarrow> bytes \<Rightarrow> filesystem" where
  "locked_fs p b =
     \<lparr>files = [p \<mapsto> b], unreadable = (\<lambda>q. q = p), denied = (\<lambda>q. False),
      unremovable = (\<lambda>q. q = p)\<rparr>"

text \<open>
  What the codec makes of term 3 and vote \<open>a\<close>: the payload, and the file that
  \<open>AppendEntry\<close> writes for it (29 is the length of the digest field).
\<close>

definition sample_buf :: bytes where
  "sample_buf = [0, 0, 0, 0, 0, 0, 0, 3, 97]"

definition sample_file :: bytes where
  "sample_file = [0, 0, 0, 0, 0, 0, 0, 29] @ sha1_New_Sum sample_buf @ sample_buf"

section \<open>Sequences of calls\<close>

text \<open>The error component of what \<open>LatestEntry\<close> returns.\<close>

definition err_of :: "latest \<Rightarrow> error option" where
  "err_of r = (case r of (t, v, i, info, err) \<Rightarrow> err)"


section \<open>The codec on the sample state\<close>



lemma sample_Unmarshal_env_3a:
  "Unmarshal_env sample_json sample_file
     = Inr \<lparr>SHA = sha1_New_Sum sample_buf, Data = sample_buf\<rparr>"
  by (simp add: sample_json_def sample_Unmarshal_env_def bytes_u64_def sha1_New_Sum_def
      sha1_empty_def sample_buf_def sample_file_def)

lemma sample_file_nonempty: "sample_file \<noteq> []"
  by (simp add: sample_file_def)

lemma sample_Unmarshal_env_bad:
  "Unmarshal_env sample_json [0, 0, 0, 0, 0, 0, 0, 1, 1, 2] = Inr \<lparr>SHA = [1], Data = [2]\<rparr>"
  by (simp add: sample_json_def sample_Unmarshal_env_def bytes_u64_def)

lemma ReadFile_file_fs:
  "p \<noteq> [] \<Longrightarrow> ioutil_ReadFile (path (NewDefaultLog p)) (file_fs p b) = (b, None)"
  by (simp add: ioutil_ReadFile_def NewDefaultLog_def file_fs_def)

lemma ReadFile_locked_fs:
  "p \<noteq> [] \<Longrightarrow>
     ioutil_ReadFile (path (NewDefaultLog p)) (locked_fs p b)
       = ([], Some (PathError ''open'' p EACCES))"
  by (simp add: ioutil_ReadFile_def NewDefaultLog_def locked_fs_def)

lemma ReadFile_missing:
  "files fs name = None \<Longrightarrow>
     ioutil_ReadFile name fs = ([], Some (PathError ''open'' name ENOENT))"
  by (simp add: ioutil_ReadFile_def)



section \<open>Persisting and reloading\<close>




text \<open>
  C8: two calls of \<open>AppendEntry\<close> with the same term and vote on the same log and file
  system, whatever their index and entry arguments, return the same result and leave the
  same files.
\<close>

theorem DefaultLog_AppendEntry_ignores_index_entry:
  "DefaultLog_AppendEntry js l t v i1 e1 fs = DefaultLog_AppendEntry js l t v i2 e2 fs"
  by (simp add: DefaultLog_AppendEntry_def)

section \<open>Reading the latest entry\<close>

text \<open>
  C2, as the claim states it, fails for a path with no backing file: \<open>LatestEntry\<close>
  returns the error of the read, which is not \<open>LogNoStateErr\<close>.
\<close>

theorem LatestEntry_missing_file_counterexample:
  "DefaultLog_LatestEntry sample_json (NewDefaultLog ''log'') empty_fs
     = (0, [], 0, None, Some (PathError ''open'' ''log'' ENOENT))
   \<and> err_of (DefaultLog_LatestEntry sample_json (NewDefaultLog ''log'') empty_fs)
       \<noteq> Some LogNoStateErr"
  by (simp add: DefaultLog_LatestEntry_def NewDefaultLog_def empty_fs_def ioutil_ReadFile_def
      err_of_def)

text \<open>
  C2, amended: for every default log, when the read of the backing file succeeds and
  returns no bytes, \<open>LatestEntry\<close> returns zero values and \<open>LogNoStateErr\<close>; when the
  read fails, \<open>LatestEntry\<close> returns zero values and the error of the read; and for a
  path with no backing file that error is the one of a file that is not there, which is
  not \<open>LogNoStateErr\<close>.
\<close>

theorem LatestEntry_NoState_or_read_error:
  "(ioutil_ReadFile (path l) fs = ([], None) \<longrightarrow>
      DefaultLog_LatestEntry js l fs = (0, [], 0, None, Some LogNoStateErr))
   \<and> (ioutil_ReadFile (path l) fs = (buf, Some e) \<longrightarrow>
      DefaultLog_LatestEntry js l fs = (0, [], 0, None, Some e))
   \<and> (files fs (path l) = None \<longrightarrow>
      DefaultLog_LatestEntry js l fs = (0, [], 0, None, Some (PathError ''open'' (path l) ENOENT))
      \<and> err_of (DefaultLog_LatestEntry js l fs) \<noteq> Some LogNoStateErr)"
  by (simp add: DefaultLog_LatestEntry_def ReadFile_missing err_of_def)

theorem LatestEntry_NoState_or_read_error_witness:
  "DefaultLog_LatestEntry sample_json (NewDefaultLog ''log'') (file_fs ''log'' [])
     = (0, [], 0, None, Some LogNoStateErr)
   \<and> DefaultLog_LatestEntry sample_json (NewDefaultLog ''log'') (locked_fs ''log'' [])
     = (0, [], 0, None, Some (PathError ''open'' ''log'' EACCES))
   \<and> DefaultLog_LatestEntry sample_json (NewDefaultLog ''log'') empty_fs
     = (0, [], 0, None, Some (PathError ''open'' (path (NewDefaultLog ''log'')) ENOENT))"
proof -
  have r1: "ioutil_ReadFile (path (NewDefaultLog ''log'')) (file_fs ''log'' []) = ([], None)"
    by (simp add: ReadFile_file_fs)
  have r2: "ioutil_ReadFile (path (NewDefaultLog ''log'')) (locked_fs ''log'' [])
            = ([], Some (PathError ''open'' ''log'' EACCES))"
    by (simp add: ReadFile_locked_fs)
  have r3: "files empty_fs (path (NewDefaultLog ''log'')) = None"
    by (simp add: empty_fs_def)
  show ?thesis
    using r1 r2 r3
      LatestEntry_NoState_or_read_error [where l = "NewDefaultLog ''log''"
        and fs = "file_fs ''log'' []" and js = sample_json]
      LatestEntry_NoState_or_read_error [where l = "NewDefaultLog ''log''"
        and fs = "locked_fs ''log'' []" and js = sample_json and buf = "[]"
        and e = "PathError ''open'' ''log'' EACCES"]
      LatestEntry_NoState_or_read_error [where l = "NewDefaultLog ''log''"
        and fs = empty_fs and js = sample_json]
    by blast
qed

text \<open>
  C3: when the backing file holds an envelope, \<open>LatestEntry\<close> recomputes the digest over
  the payload of the envelope. If it differs from the stored digest the result is
  \<open>LogCorruptErr\<close>, with zero values; if it is equal, the error returned, if any, is not
  \<open>LogCorruptErr\<close>.
\<close>

theorem LatestEntry_corrupt_iff:
  assumes rd: "ioutil_ReadFile (path l) fs = (buf, None)"
    and ne: "buf \<noteq> []"
    and un: "Unmarshal_env js buf = Inr env"
  shows "(sha1_New_Sum (Data env) \<noteq> SHA env \<longrightarrow>
            DefaultLog_LatestEntry js l fs = (0, [], 0, None, Some LogCorruptErr))
       \<and> (sha1_New_Sum (Data env) = SHA env \<longrightarrow>
            err_of (DefaultLog_LatestEntry js l fs) \<noteq> Some LogCorruptErr)"
  using assms
  by (simp add: DefaultLog_LatestEntry_def bytes_Equal_def err_of_def split: sum.splits)

theorem LatestEntry_corrupt_iff_witness:
  "DefaultLog_LatestEntry sample_json (NewDefaultLog ''log'')
      (file_fs ''log'' [0, 0, 0, 0, 0, 0, 0, 1, 1, 2]) = (0, [], 0, None, Some LogCorruptErr)
   \<and> err_of (DefaultLog_LatestEntry sample_json (NewDefaultLog ''log'')
               (file_fs ''log'' sample_file)) \<noteq> Some LogCorruptErr"
proof -
  have rd1: "ioutil_ReadFile (path (NewDefaultLog ''log''))
               (file_fs ''log'' [0, 0, 0, 0, 0, 0, 0, 1, 1, 2])
             = ([0, 0, 0, 0, 0, 0, 0, 1, 1, 2], None)"
    by (simp add: ReadFile_file_fs)
  have ne1: "[0, 0, 0, 0, 0, 0, 0, 1, 1, 2] \<noteq> ([] :: bytes)"
    by simp
  have differs: "sha1_New_Sum (Data \<lparr>SHA = [1], Data = [2]\<rparr>) \<noteq> SHA \<lparr>SHA = [1], Data = [2]\<rparr>"
    by (simp add: sha1_New_Sum_def)
  have rd2: "ioutil_ReadFile (path (NewDefaultLog ''log'')) (file_fs ''log'' sample_file)
             = (sample_file, None)"
    by (simp add: ReadFile_file_fs)
  have equal: "sha1_New_Sum (Data \<lparr>SHA = sha1_New_Sum sample_buf, Data = sample_buf\<rparr>)
               = SHA \<lparr>SHA = sha1_New_Sum sample_buf, Data = sample_buf\<rparr>"
    by simp
  show ?thesis
    using LatestEntry_corrupt_iff [OF rd1 ne1 sample_Unmarshal_env_bad] differs
      LatestEntry_corrupt_iff [OF rd2 sample_file_nonempty sample_Unmarshal_env_3a] equal
    by blast
qed

section \<open>Closing the default log\<close>

text \<open>
  C7, as the claim states it, fails: on a log whose backing file exists the first \<open>Close\<close>
  returns nil and the second returns an error, the one of removing the empty path.
\<close>

theorem Close_twice_counterexample:
  "(case DefaultLog_Close (NewDefaultLog ''log'') (file_fs ''log'' [1]) of
      (err1, l1, fs1) \<Rightarrow>
        err1 = None
        \<and> fst (DefaultLog_Close l1 fs1) = Some (PathError ''remove'' [] ENOENT)
        \<and> fst (DefaultLog_Close l1 fs1) \<noteq> err1)"
  by (simp add: DefaultLog_Close_def NewDefaultLog_def file_fs_def os_Remove_def)

text \<open>
  C7, amended: whatever the first \<open>Close\<close> returned, a second \<open>Close\<close> leaves the log
  and the file system as the first left them and returns an error, the one of removing
  the empty path.
\<close>

theorem Close_twice:
  "(case DefaultLog_Close l fs of
      (err1, l1, fs1) \<Rightarrow>
        DefaultLog_Close l1 fs1 = (Some (PathError ''remove'' [] ENOENT), l1, fs1))"
  by (simp add: DefaultLog_Close_def os_Remove_def)

section \<open>The default log compares no history\<close>

text \<open>
  C4: for every local index, local info, candidate index and candidate info,
  \<open>DefaultLog.LogUpToDate\<close> returns true.
\<close>

theorem DefaultLog_LogUpToDate_true:
  "DefaultLog_LogUpToDate l index info candidateIndex candidateInfo = True"
  by (simp add: DefaultLog_LogUpToDate_def)

section \<open>The test log\<close>

text \<open>
  C5: \<open>TestLog.LogUpToDate\<close> returns true exactly when the candidate's index is at least
  the local index; the two info arguments play no part.
\<close>

theorem TestLog_LogUpToDate_iff:
  "TestLog_LogUpToDate l index info candidateIndex candidateInfo = (index \<le> candidateIndex)"
  by (simp add: TestLog_LogUpToDate_def le_less)

text \<open>
  C10: \<open>TestLog.AppendEntry\<close> returns nil and stores the term and the vote; the last
  index, the last entry and the closed flag keep their values.
\<close>

theorem TestLog_AppendEntry_frame:
  "TestLog_AppendEntry l t v index entry = (None, l\<lparr>Term := t, VotedFor := v\<rparr>)
   \<and> LastIndex (snd (TestLog_AppendEntry l t v index entry)) = LastIndex l
   \<and> LastEntry (snd (TestLog_AppendEntry l t v index entry)) = LastEntry l
   \<and> Closed (snd (TestLog_AppendEntry l t v index entry)) = Closed l
   \<and> Term (snd (TestLog_AppendEntry l t v index entry)) = t
   \<and> VotedFor (snd (TestLog_AppendEntry l t v index entry)) = v"
  by (simp add: TestLog_AppendEntry_def)

section \<open>The node reads its state\<close>

text \<open>
  C6: when \<open>LatestEntry\<close> of the node's log returns \<open>LogNoStateErr\<close>, \<open>readState\<close>
  returns nil.
\<close>

theorem readState_NoState_nil:
  assumes "fst (LatestEntry (log n) w) = (t, v, i, info, Some LogNoStateErr)"
  shows "fst (readState n w) = None"
  using assms by (cases "LatestEntry (log n) w") (simp add: readState_def)

theorem readState_NoState_nil_witness:
  "fst (readState \<lparr>log = DefaultLog_Log sample_json, logPath = ''log'', term = 5, vote = ''b'',
                    lastIndex = 0, logInfo = None\<rparr>
         (NewDefaultLog ''log'', file_fs ''log'' [])) = None"
proof -
  have h: "fst (LatestEntry (log \<lparr>log = DefaultLog_Log sample_json, logPath = ''log'', term = 5,
                vote = ''b'', lastIndex = 0, logInfo = None\<rparr>)
             (NewDefaultLog ''log'', file_fs ''log'' []))
           = (0, [], 0, None, Some LogNoStateErr)"
    by (simp add: DefaultLog_Log_def DefaultLog_LatestEntry_def ReadFile_file_fs)
  show ?thesis
    by (rule readState_NoState_nil [OF h])
qed

text \<open>
  C9: when \<open>LatestEntry\<close> of the node's log returns an error other than
  \<open>LogNoStateErr\<close>, \<open>readState\<close> returns that error and the node is as it was: its term,
  its vote, its last index and its log info are unchanged.
\<close>

theorem readState_error_atomic:
  assumes "fst (LatestEntry (log n) w) = (t, v, i, info, Some e)" and "e \<noteq> LogNoStateErr"
  shows "fst (readState n w) = Some e \<and> fst (snd (readState n w)) = n
       \<and> term (fst (snd (readState n w))) = term n
       \<and> vote (fst (snd (readState n w))) = vote n
       \<and> lastIndex (fst (snd (readState n w))) = lastIndex n
       \<and> logInfo (fst (snd (readState n w))) = logInfo n"
  using assms by (cases "LatestEntry (log n) w") (simp add: readState_def)

theorem readState_error_atomic_witness:
  "fst (readState \<lparr>log = DefaultLog_Log sample_json, logPath = ''log'', term = 5, vote = ''b'',
                    lastIndex = 7, logInfo = Some [1]\<rparr>
         (NewDefaultLog ''log'', file_fs ''log'' [0, 0, 0, 0, 0, 0, 0, 1, 1, 2]))
     = Some LogCorruptErr
   \<and> fst (snd (readState \<lparr>log = DefaultLog_Log sample_json, logPath = ''log'', term = 5,
                            vote = ''b'', lastIndex = 7, logInfo = Some [1]\<rparr>
                 (NewDefaultLog ''log'', file_fs ''log'' [0, 0, 0, 0, 0, 0, 0, 1, 1, 2])))
     = \<lparr>log = DefaultLog_Log sample_json, logPath = ''log'', term = 5, vote = ''b'',
        lastIndex = 7, logInfo = Some [1]\<rparr>"
proof -
  have h: "fst (LatestEntry (log \<lparr>log = DefaultLog_Log sample_json, logPath = ''log'', term = 5,
                vote = ''b'', lastIndex = 7, logInfo = Some [1]\<rparr>)
             (NewDefaultLog ''log'', file_fs ''log'' [0, 0, 0, 0, 0, 0, 0, 1, 1, 2]))
           = (0, [], 0, None, Some LogCorruptErr)"
    by (simp add: DefaultLog_Log_def DefaultLog_LatestEntry_def ReadFile_file_fs
        sample_Unmarshal_env_bad sha1_New_Sum_def bytes_Equal_def)
  have d: "LogCorruptErr \<noteq> LogNoStateErr"
    by simp
  show ?thesis
    using readState_error_atomic [OF h d] by blast
qed

end
